theory Spec2Isabelle
  imports Main "HOL-Library.AList"
begin

section \<open>Python strings\<close>

text \<open>
  A Python \<open>str\<close> is modelled as a HOL \<open>string\<close>; one \<open>char\<close> stands for one code
  point below 256. \<open>len\<close> is \<open>length\<close>, and Python integers are \<open>int\<close>.
\<close>

definition isspace :: "char \<Rightarrow> bool" where
  \<comment> \<open>\<open>str.isspace\<close> on one code point: tab, newline, vertical tab, form feed, carriage
      return, the four separators 28..31, space, NEL (133) and no-break space (160).\<close>
  "isspace c = (of_char c \<in> set [9, 10, 11, 12, 13, 28, 29, 30, 31, 32, 133, 160 :: nat])"

definition lstrip :: "string \<Rightarrow> string" where
  "lstrip s = dropWhile isspace s"

definition rstrip :: "string \<Rightarrow> string" where
  "rstrip s = rev (dropWhile isspace (rev s))"

definition strip :: "string \<Rightarrow> string" where
  \<comment> \<open>\<open>s.strip()\<close>\<close>
  "strip s = rstrip (lstrip s)"

fun split_chr :: "char \<Rightarrow> string \<Rightarrow> string list" where
  \<comment> \<open>\<open>s.split(c)\<close> for a one-character separator: always at least one part\<close>
  "split_chr c [] = [[]]"
| "split_chr c (x # xs) =
     (let r = split_chr c xs in if x = c then [] # r else (x # hd r) # tl r)"

fun join :: "string \<Rightarrow> string list \<Rightarrow> string" where
  \<comment> \<open>\<open>sep.join(parts)\<close>\<close>
  "join sep [] = []"
| "join sep [x] = x"
| "join sep (x # y # ys) = x @ sep @ join sep (y # ys)"

fun startswith :: "string \<Rightarrow> string \<Rightarrow> bool" where
  \<comment> \<open>\<open>s.startswith(p)\<close>, arguments in the order (p, s)\<close>
  "startswith [] s = True"
| "startswith (p # ps) [] = False"
| "startswith (p # ps) (c # cs) = (p = c \<and> startswith ps cs)"

fun py_in :: "string \<Rightarrow> string \<Rightarrow> bool" where
  \<comment> \<open>\<open>sub in s\<close> on strings: \<open>sub\<close> occurs as a contiguous substring of \<open>s\<close>\<close>
  "py_in sub [] = (sub = [])"
| "py_in sub (c # cs) = (startswith sub (c # cs) \<or> py_in sub cs)"

definition lower_chr :: "char \<Rightarrow> char" where
  \<comment> \<open>\<open>str.lower\<close> on one code point below 256: A..Z and the accented capitals 192..222
      (without the multiplication sign 215) move up by 32.\<close>
  "lower_chr c =
     (let n = (of_char c :: nat)
      in if (65 \<le> n \<and> n \<le> 90) \<or> (192 \<le> n \<and> n \<le> 222 \<and> n \<noteq> 215)
         then char_of (n + 32) else c)"

definition lower :: "string \<Rightarrow> string" where
  "lower s = map lower_chr s"

definition digit_chr :: "nat \<Rightarrow> char" where
  "digit_chr d = ''0123456789'' ! d"

fun str_nat :: "nat \<Rightarrow> string" where
  "str_nat n = (if n < 10 then [digit_chr n] else str_nat (n div 10) @ [digit_chr (n mod 10)])"

declare str_nat.simps [simp del]

definition str_int :: "int \<Rightarrow> string" where
  \<comment> \<open>\<open>str(i)\<close>, also what an f-string prints for an integer\<close>
  "str_int i = (if i < 0 then ''-'' @ str_nat (nat (- i)) else str_nat (nat i))"

section \<open>git\_tools.py: GitAnalyzer\<close>

subsection \<open>Diff truncation\<close>

definition truncation_marker :: "int \<Rightarrow> string" where
  \<comment> \<open>the f-string appended at line 112; it starts with a newline of its own\<close>
  "truncation_marker k =
     [CHR 0x0A] @ ''... [DIFF TRUNCATED - '' @ str_int k @ '' more lines] ...''"

fun truncate_loop :: "nat \<Rightarrow> int \<Rightarrow> string list \<Rightarrow> int \<Rightarrow> string list \<Rightarrow> string list" where
  \<comment> \<open>the \<open>for line in lines\<close> loop of \<open>_truncate_diff\<close>: \<open>n\<close> is \<open>len(lines)\<close>, \<open>acc\<close> is
      \<open>truncated_lines\<close>, \<open>cur\<close> is \<open>current_size\<close>; the last argument is what is left
      to iterate over. The result is \<open>truncated_lines\<close> when the loop is left.\<close>
  "truncate_loop n max_chars acc cur [] = acc"
| "truncate_loop n max_chars acc cur (line # rest) =
     (let line_size = int (length line) + 1
      in if cur + line_size > max_chars
         then acc @ [truncation_marker (int n - int (length acc))]
         else truncate_loop n max_chars (acc @ [line]) (cur + line_size) rest)"

definition truncate_diff :: "string \<Rightarrow> int \<Rightarrow> string" where
  \<comment> \<open>\<open>GitAnalyzer._truncate_diff\<close>\<close>
  "truncate_diff diff max_chars =
     (if int (length diff) \<le> max_chars then diff
      else let lines = split_chr (CHR 0x0A) diff
           in join [CHR 0x0A] (truncate_loop (length lines) max_chars [] 0 lines))"

subsection \<open>Running git\<close>

datatype py_exception =
    Exception string  \<comment> \<open>\<open>Exception(msg)\<close>, raised by \<open>_run_git_command\<close>\<close>
  | IndexError  \<comment> \<open>\<open>status[0]\<close> on the empty string\<close>
  | TypeError string  \<comment> \<open>\<open>+= 1\<close> on a summary entry that is no number\<close>
  | OSError string  \<comment> \<open>the process could not be started, or a path not resolved\<close>

fun str_exception :: "py_exception \<Rightarrow> string" where
  \<comment> \<open>\<open>str(e)\<close>\<close>
  "str_exception (Exception msg) = msg"
| "str_exception IndexError = ''string index out of range''"
| "str_exception (TypeError msg) = msg"
| "str_exception (OSError msg) = msg"

datatype proc_result =
    Exited int string string  \<comment> \<open>return code, stdout, stderr of a process that ran\<close>
  | NotStarted string  \<comment> \<open>\<open>subprocess.run\<close> raised before the process ran\<close>

type_synonym git = "string \<Rightarrow> string list \<Rightarrow> proc_result"
  \<comment> \<open>the external tool: working directory and arguments after \<open>git\<close> to the outcome\<close>

record GitAnalyzer =
  repo_path :: string

definition run_git_command :: "git \<Rightarrow> GitAnalyzer \<Rightarrow> string list \<Rightarrow> py_exception + string" where
  \<comment> \<open>\<open>GitAnalyzer._run_git_command\<close>; \<open>check=True\<close> raises on a non-zero return code\<close>
  "run_git_command git self command =
     (case git (repo_path self) command of
        Exited rc out err \<Rightarrow>
          if rc = 0 then Inr (strip out)
          else Inl (Exception (''Git command failed: '' @ err))
      | NotStarted msg \<Rightarrow> Inl (OSError msg))"

subsection \<open>Change kinds\<close>

definition status_map :: "char \<rightharpoonup> string" where
  "status_map = map_of
     [(CHR ''A'', ''added''), (CHR ''M'', ''modified''), (CHR ''D'', ''deleted''),
      (CHR ''R'', ''renamed''), (CHR ''C'', ''copied''), (CHR ''T'', ''type_changed'')]"

fun get_change_type :: "string \<Rightarrow> py_exception + string" where
  \<comment> \<open>\<open>GitAnalyzer._get_change_type\<close>: \<open>status_map.get(status[0], 'unknown')\<close>\<close>
  "get_change_type [] = Inl IndexError"
| "get_change_type (c # cs) = Inr (case status_map c of Some kind \<Rightarrow> kind | None \<Rightarrow> ''unknown'')"

record FileChange =
  status :: string
  filename :: string
  change_type :: string

subsection \<open>Change summary\<close>

record ChangeSummary =
  added :: int
  modified :: int
  deleted :: int
  renamed :: int
  file_types :: "(string \<times> int) list"  \<comment> \<open>a dict, in insertion order\<close>
  directories :: "string set"  \<comment> \<open>a set, turned into a list in no stated order\<close>

definition quoted :: "string \<Rightarrow> string" where
  \<comment> \<open>the text between two apostrophes\<close>
  "quoted s = [CHR 0x27] @ s @ [CHR 0x27]"

definition rstrip_chr :: "char \<Rightarrow> string \<Rightarrow> string" where
  \<comment> \<open>\<open>s.rstrip(c)\<close>\<close>
  "rstrip_chr c s = rev (dropWhile (\<lambda>x. x = c) (rev s))"

definition dirname :: "string \<Rightarrow> string" where
  \<comment> \<open>\<open>os.path.dirname\<close> of posixpath: the text up to the last slash, without its
      trailing slashes unless it is slashes only\<close>
  "dirname p =
     (let head = rev (dropWhile (\<lambda>x. x \<noteq> CHR ''/'') (rev p))
      in if head \<noteq> [] \<and> head \<noteq> replicate (length head) (CHR ''/'')
         then rstrip_chr (CHR ''/'') head else head)"

definition dict_get :: "('k \<times> 'v) list \<Rightarrow> 'k \<Rightarrow> 'v \<Rightarrow> 'v" where
  \<comment> \<open>\<open>d.get(k, default)\<close>\<close>
  "dict_get d k dflt = (case map_of d k of Some v \<Rightarrow> v | None \<Rightarrow> dflt)"

definition count_change_type :: "string \<Rightarrow> ChangeSummary \<Rightarrow> py_exception + ChangeSummary" where
  \<comment> \<open>\<open>if change_type in summary: summary[change_type] += 1\<close>; the summary has six keys,
      and two of them hold a dict and a set\<close>
  "count_change_type ct summary =
     (if ct = ''added'' then Inr (summary\<lparr>added := added summary + 1\<rparr>)
      else if ct = ''modified'' then Inr (summary\<lparr>modified := modified summary + 1\<rparr>)
      else if ct = ''deleted'' then Inr (summary\<lparr>deleted := deleted summary + 1\<rparr>)
      else if ct = ''renamed'' then Inr (summary\<lparr>renamed := renamed summary + 1\<rparr>)
      else if ct = ''file_types''
        then Inl (TypeError (''unsupported operand type(s) for +=: '' @ quoted ''dict''
                             @ '' and '' @ quoted ''int''))
      else if ct = ''directories''
        then Inl (TypeError (''unsupported operand type(s) for +=: '' @ quoted ''set''
                             @ '' and '' @ quoted ''int''))
      else Inr summary)"

definition track_file :: "string \<Rightarrow> ChangeSummary \<Rightarrow> ChangeSummary" where
  \<comment> \<open>the extension and directory steps of the loop body\<close>
  "track_file fname summary =
     (let s1 = (if py_in ''.'' fname
                then let ext = last (split_chr (CHR ''.'') fname)
                     in summary\<lparr>file_types :=
                          AList.update ext (dict_get (file_types summary) ext 0 + 1)
                            (file_types summary)\<rparr>
                else summary);
          directory = dirname fname
      in if directory \<noteq> [] then s1\<lparr>directories := insert directory (directories s1)\<rparr>
         else s1)"

fun summarize_loop :: "FileChange list \<Rightarrow> ChangeSummary \<Rightarrow> py_exception + ChangeSummary" where
  "summarize_loop [] summary = Inr summary"
| "summarize_loop (change # rest) summary =
     (case count_change_type (change_type change) summary of
        Inl e \<Rightarrow> Inl e
      | Inr s \<Rightarrow> summarize_loop rest (track_file (filename change) s))"

definition summarize_changes :: "FileChange list \<Rightarrow> py_exception + ChangeSummary" where
  \<comment> \<open>\<open>GitAnalyzer._summarize_changes\<close>\<close>
  "summarize_changes file_changes =
     summarize_loop file_changes
       \<lparr>added = 0, modified = 0, deleted = 0, renamed = 0, file_types = [], directories = {}\<rparr>"

subsection \<open>The change report\<close>

record ChangeReport =
  error :: "string option"  \<comment> \<open>the key is present on the failure path only\<close>
  branch_comparison :: string
  total_files_changed :: int
  file_changes :: "FileChange list"
  diff_stats :: string
  diff_content :: string
  truncated :: bool
  original_diff_size :: "int option"  \<comment> \<open>present on the success path only\<close>
  change_summary :: "ChangeSummary option"  \<comment> \<open>present on the success path only\<close>

fun parse_changed_files :: "string list \<Rightarrow> FileChange list \<Rightarrow> py_exception + FileChange list" where
  \<comment> \<open>the \<open>for line in changed_files\<close> loop; the second argument is \<open>file_changes\<close>\<close>
  "parse_changed_files [] changes = Inr changes"
| "parse_changed_files (line # rest) changes =
     (if strip line \<noteq> [] then
        (let parts = split_chr (CHR 0x09) line
         in if length parts \<ge> 2 then
              (let status = parts ! 0; filename = parts ! 1
               in case get_change_type status of
                    Inl e \<Rightarrow> Inl e
                  | Inr kind \<Rightarrow>
                      parse_changed_files rest
                        (changes @
                           [\<lparr>status = status, filename = filename, change_type = kind\<rparr>]))
            else parse_changed_files rest changes)
      else parse_changed_files rest changes)"

definition name_status_command :: "string \<Rightarrow> string list" where
  "name_status_command target_branch = [''diff'', ''--name-status'', target_branch @ ''...HEAD'']"

definition stat_command :: "string \<Rightarrow> string list" where
  "stat_command target_branch = [''diff'', ''--stat'', target_branch @ ''...HEAD'']"

definition diff_command :: "string \<Rightarrow> string list" where
  "diff_command target_branch = [''diff'', target_branch @ ''...HEAD'']"

definition file_changes_try :: "git \<Rightarrow> GitAnalyzer \<Rightarrow> string \<Rightarrow> int \<Rightarrow> py_exception + ChangeReport" where
  \<comment> \<open>the body of the \<open>try\<close> of \<open>get_file_changes\<close>, statement by statement\<close>
  "file_changes_try git self target_branch max_tokens =
     (case run_git_command git self (name_status_command target_branch) of
        Inl e \<Rightarrow> Inl e
      | Inr listing \<Rightarrow>
     (let changed_files = split_chr (CHR 0x0A) listing
      in case run_git_command git self (stat_command target_branch) of
        Inl e \<Rightarrow> Inl e
      | Inr stats \<Rightarrow>
     (case run_git_command git self (diff_command target_branch) of
        Inl e \<Rightarrow> Inl e
      | Inr full_diff \<Rightarrow>
     (case parse_changed_files changed_files [] of
        Inl e \<Rightarrow> Inl e
      | Inr changes \<Rightarrow>
     (let truncated_diff = truncate_diff full_diff (max_tokens - 2000)
      in case summarize_changes changes of
        Inl e \<Rightarrow> Inl e
      | Inr summary \<Rightarrow>
          Inr \<lparr>error = None,
               branch_comparison = target_branch @ ''...HEAD'',
               total_files_changed = int (length changes),
               file_changes = changes,
               diff_stats = stats,
               diff_content = truncated_diff,
               truncated = (length full_diff > length truncated_diff),
               original_diff_size = Some (int (length full_diff)),
               change_summary = Some summary\<rparr>)))))"

definition error_report :: "string \<Rightarrow> string \<Rightarrow> ChangeReport" where
  \<comment> \<open>the dict returned by the \<open>except\<close> branch of \<open>get_file_changes\<close>\<close>
  "error_report msg target_branch =
     \<lparr>error = Some msg,
      branch_comparison = target_branch @ ''...HEAD'',
      total_files_changed = 0,
      file_changes = [],
      diff_stats = [],
      diff_content = [],
      truncated = False,
      original_diff_size = None,
      change_summary = None\<rparr>"

definition get_file_changes :: "git \<Rightarrow> GitAnalyzer \<Rightarrow> string \<Rightarrow> int \<Rightarrow> ChangeReport" where
  \<comment> \<open>\<open>GitAnalyzer.get_file_changes\<close>\<close>
  "get_file_changes git self target_branch max_tokens =
     (case file_changes_try git self target_branch max_tokens of
        Inl e \<Rightarrow> error_report (str_exception e) target_branch
      | Inr report \<Rightarrow> report)"

subsection \<open>Commit log and branches\<close>

record CommitRecord =
  hash :: string
  message :: string
  author :: string
  date :: string

datatype log_entry =
    Commit CommitRecord
  | LogError string  \<comment> \<open>the dict with the single key \<open>error\<close>\<close>

fun parse_commits :: "string list \<Rightarrow> log_entry list \<Rightarrow> log_entry list" where
  \<comment> \<open>the \<open>for line in log_output.split\<close> loop; the second argument is \<open>commits\<close>\<close>
  "parse_commits [] commits = commits"
| "parse_commits (line # rest) commits =
     (if strip line \<noteq> [] then
        (let parts = split_chr (CHR ''|'') line
         in if length parts \<ge> 4 then
              parse_commits rest
                (commits @
                   [Commit \<lparr>hash = parts ! 0, message = parts ! 1,
                            author = parts ! 2, date = parts ! 3\<rparr>])
            else parse_commits rest commits)
      else parse_commits rest commits)"

definition log_command :: "string \<Rightarrow> int \<Rightarrow> string list" where
  "log_command target_branch limit =
     [''log'', target_branch @ ''...HEAD'', ''--pretty=format:%H|%s|%an|%ad'',
      ''--date=short'', ''-'' @ str_int limit]"

definition get_commit_messages :: "git \<Rightarrow> GitAnalyzer \<Rightarrow> string \<Rightarrow> int \<Rightarrow> log_entry list" where
  \<comment> \<open>\<open>GitAnalyzer.get_commit_messages\<close>\<close>
  "get_commit_messages git self target_branch limit =
     (case run_git_command git self (log_command target_branch limit) of
        Inl e \<Rightarrow> [LogError (str_exception e)]
      | Inr log_output \<Rightarrow> parse_commits (split_chr (CHR 0x0A) log_output) [])"

record BranchInfo =
  current_branch :: "string option"
  remote_branches :: "string list"
  is_git_repo :: bool
  branch_error :: "string option"  \<comment> \<open>the key \<open>error\<close>, present on the failure path only\<close>

definition branch_failure :: "py_exception \<Rightarrow> BranchInfo" where
  "branch_failure e =
     \<lparr>current_branch = None, remote_branches = [], is_git_repo = False,
      branch_error = Some (str_exception e)\<rparr>"

definition get_branch_info :: "git \<Rightarrow> GitAnalyzer \<Rightarrow> BranchInfo" where
  \<comment> \<open>\<open>GitAnalyzer.get_branch_info\<close>\<close>
  "get_branch_info git self =
     (case run_git_command git self [''branch'', ''--show-current''] of
        Inl e \<Rightarrow> branch_failure e
      | Inr current \<Rightarrow>
     (case run_git_command git self [''branch'', ''-r''] of
        Inl e \<Rightarrow> branch_failure e
      | Inr listing \<Rightarrow>
          \<lparr>current_branch = Some current,
           remote_branches =
             map strip (filter (\<lambda>b. strip b \<noteq> []) (split_chr (CHR 0x0A) listing)),
           is_git_repo = True,
           branch_error = None\<rparr>))"

section \<open>templates.py: TemplateManager\<close>

subsection \<open>The template store\<close>

record TemplateMetadata =
  name :: string
  description :: string
  suitable_for :: "string list"

definition template_metadata :: "(string \<times> TemplateMetadata) list" where
  "template_metadata =
     [(''feature'',
         \<lparr>name = ''Feature'', description = ''For new features and enhancements'',
          suitable_for = [''New functionality'', ''Feature enhancements'',
                          ''New API endpoints'', ''UI/UX improvements'']\<rparr>),
      (''bugfix'',
         \<lparr>name = ''Bug Fix'', description = ''For fixing bugs and issues'',
          suitable_for = [''Bug fixes'', ''Error handling improvements'',
                          ''Performance fixes'', ''Security fixes'']\<rparr>),
      (''hotfix'',
         \<lparr>name = ''Hotfix'', description = ''For critical production issues'',
          suitable_for = [''Critical production bugs'', ''Security vulnerabilities'',
                          ''Service outages'', ''Data corruption fixes'']\<rparr>),
      (''docs'',
         \<lparr>name = ''Documentation'', description = ''For documentation changes'',
          suitable_for = [''README updates'', ''API documentation'',
                          ''Code comments'', ''Architecture docs'']\<rparr>)]"

record TemplateFile =
  \<comment> \<open>one path yielded by \<open>templates_dir.glob("*.md")\<close>, with what opening and reading it
      gives\<close>
  stem :: string
  file_path :: string
  read_result :: "py_exception + string"

datatype template =
    Template string string TemplateMetadata  \<comment> \<open>content, file\_path, metadata\<close>
  | Unreadable string string  \<comment> \<open>error, file\_path\<close>

definition load_template :: "(string \<Rightarrow> string) \<Rightarrow> TemplateFile \<Rightarrow> template" where
  \<comment> \<open>the body of the loop of \<open>get_all_templates\<close>; \<open>title\<close> is \<open>str.title\<close>\<close>
  "load_template title template_file =
     (let template_name = stem template_file
      in case read_result template_file of
           Inr content \<Rightarrow>
             Template content (file_path template_file)
               (dict_get template_metadata template_name
                  \<lparr>name = title template_name,
                   description = ''Template for '' @ template_name,
                   suitable_for = []\<rparr>)
         | Inl e \<Rightarrow>
             Unreadable (''Could not load template: '' @ str_exception e)
               (file_path template_file))"

fun load_templates :: "(string \<Rightarrow> string) \<Rightarrow> TemplateFile list \<Rightarrow> (string \<times> template) list
    \<Rightarrow> (string \<times> template) list" where
  \<comment> \<open>the loop of \<open>get_all_templates\<close>; the dict \<open>templates\<close> keeps insertion order, and
      a key written twice keeps its place\<close>
  "load_templates title [] templates = templates"
| "load_templates title (f # fs) templates =
     load_templates title fs (AList.update (stem f) (load_template title f) templates)"

definition get_all_templates :: "(string \<Rightarrow> string) \<Rightarrow> TemplateFile list \<Rightarrow> (string \<times> template) list" where
  \<comment> \<open>\<open>TemplateManager.get_all_templates\<close>, over the files the directory scan yields\<close>
  "get_all_templates title files = load_templates title files []"

definition get_template :: "(string \<Rightarrow> string) \<Rightarrow> TemplateFile list \<Rightarrow> string \<Rightarrow> template option" where
  \<comment> \<open>\<open>TemplateManager.get_template\<close>: \<open>templates.get(template_name)\<close>\<close>
  "get_template title files template_name = map_of (get_all_templates title files) template_name"

definition list_available_templates :: "(string \<Rightarrow> string) \<Rightarrow> TemplateFile list \<Rightarrow> string list" where
  \<comment> \<open>\<open>TemplateManager.list_available_templates\<close>: the keys of the dict\<close>
  "list_available_templates title files = map fst (get_all_templates title files)"

subsection \<open>Template suggestions\<close>

record AnalysisEntry =
  \<comment> \<open>one element of \<open>file_changes\<close>, read with \<open>change.get("filename", "")\<close>\<close>
  entry_filename :: "string option"

record ChangeAnalysis =
  \<comment> \<open>the dict given to the suggestion engine, read with
      \<open>change_analysis.get("file_changes", [])\<close>; its other keys are the record's extension\<close>
  analysis_file_changes :: "AnalysisEntry list option"

record 'a Suggestions =
  primary_suggestions :: "string list"
  secondary_suggestions :: "string list"
  analysis_data :: 'a
  confidence :: string
  reasoning :: string

definition any_in :: "string list \<Rightarrow> string \<Rightarrow> bool" where
  \<comment> \<open>\<open>any(m in text for m in markers)\<close>\<close>
  "any_in markers text = list_ex (\<lambda>m. py_in m text) markers"

fun count_files :: "AnalysisEntry list \<Rightarrow> int \<times> int \<times> int \<times> int \<Rightarrow> int \<times> int \<times> int \<times> int" where
  \<comment> \<open>the \<open>for change in file_changes\<close> loop; the counters are
      (doc\_files, code\_files, config\_files, test\_files)\<close>
  "count_files [] counters = counters"
| "count_files (change # rest) (doc_files, code_files, config_files, test_files) =
     (let fname = lower (case entry_filename change of Some f \<Rightarrow> f | None \<Rightarrow> [])
      in if any_in [''.md'', ''.txt'', ''.rst'', ''readme'', ''docs/''] fname
           then count_files rest (doc_files + 1, code_files, config_files, test_files)
         else if any_in [''test_'', ''_test'', ''spec_'', ''_spec'', ''tests/''] fname
           then count_files rest (doc_files, code_files, config_files, test_files + 1)
         else if any_in [''.json'', ''.yaml'', ''.yml'', ''.toml'', ''.ini'', ''config''] fname
           then count_files rest (doc_files, code_files, config_files + 1, test_files)
         else count_files rest (doc_files, code_files + 1, config_files, test_files))"

definition get_template_suggestions ::
    "('a ChangeAnalysis_scheme \<Rightarrow> string) \<Rightarrow> 'a ChangeAnalysis_scheme
      \<Rightarrow> 'a ChangeAnalysis_scheme Suggestions" where
  \<comment> \<open>\<open>TemplateManager.get_template_suggestions\<close>; \<open>py_str\<close> is Python's \<open>str\<close> on the
      dict\<close>
  "get_template_suggestions py_str ca =
     (let changes = (case analysis_file_changes ca of Some l \<Rightarrow> l | None \<Rightarrow> []);
          (doc_files, code_files, config_files, test_files) = count_files changes (0, 0, 0, 0);
          total_files = int (length changes);
          (primary, secondary) =
            (if total_files = 0 then ([''feature''], [])
             else if doc_files > code_files then ([''docs''], [''feature''])
             else if any_in [''fix'', ''bug'', ''error'', ''issue''] (lower (py_str ca))
               then ([''bugfix''], [''feature''])
             else if any_in [''critical'', ''urgent'', ''hotfix'', ''production'']
                       (lower (py_str ca))
               then ([''hotfix''], [''bugfix''])
             else ([''feature''], [''docs'', ''bugfix'']))
      in \<lparr>primary_suggestions = primary,
          secondary_suggestions = secondary,
          analysis_data = ca,
          confidence = ''low'',
          reasoning = ''Basic heuristic analysis - Claude will provide better suggestions''\<rparr>)"

section \<open>server.py: the tools\<close>

record ServerState =
  \<comment> \<open>the module's global \<open>git_analyzer\<close>\<close>
  git_analyzer :: GitAnalyzer

datatype analysis_result =
    Analysis ChangeReport BranchInfo "log_entry list" string string
      \<comment> \<open>the keys of \<open>changes\<close>, then branch\_info, recent\_commits, analysis\_timestamp,
          tool\_version\<close>
  | AnalysisFailed string string string
      \<comment> \<open>error, target\_branch, repo\_path; the other keys of this dict are constants:
          no files, empty texts, truncated false\<close>

definition analyze_file_changes ::
    "git \<Rightarrow> (string \<Rightarrow> py_exception + string) \<Rightarrow> string \<Rightarrow> string \<Rightarrow> int \<Rightarrow> ServerState
      \<Rightarrow> analysis_result \<times> ServerState" where
  \<comment> \<open>the tool \<open>analyze_file_changes\<close>; \<open>resolve\<close> is \<open>Path(p).resolve()\<close>, run by the
      constructor of \<open>GitAnalyzer\<close>. The second component is the state after the call.\<close>
  "analyze_file_changes git resolve target_branch path max_tokens st =
     (case (if path \<noteq> ''.''
            then (case resolve path of
                    Inl e \<Rightarrow> Inl e
                  | Inr p \<Rightarrow> Inr (st\<lparr>git_analyzer := \<lparr>repo_path = p\<rparr>\<rparr>))
            else Inr st) of
        Inl e \<Rightarrow>
          (AnalysisFailed (''Failed to analyze file changes: '' @ str_exception e)
             target_branch path, st)
      | Inr st' \<Rightarrow>
          (let changes = get_file_changes git (git_analyzer st') target_branch max_tokens;
               branch_info = get_branch_info git (git_analyzer st');
               commit_messages = get_commit_messages git (git_analyzer st') target_branch 5
           in (Analysis changes branch_info commit_messages ''2025-06-14'' ''1.0.0'', st')))"



record BasicChecks =
  has_description :: bool
  reasonable_length :: bool
  contains_checklist :: bool

record 'a ValidationResult =
  template_used :: string
  description_length :: int
  template_content :: string
  change_analysis :: "'a option"  \<comment> \<open>\<open>change_analysis or {}\<close>: \<open>None\<close> is the empty dict\<close>
  basic_checks :: BasicChecks
  validation_note :: string

datatype 'a validation =
    Validated "'a ValidationResult"
  | NotFound bool string "string list"  \<comment> \<open>valid, error, available\_templates\<close>

definition template_get_content :: "template \<Rightarrow> string" where
  \<comment> \<open>\<open>template.get("content", "")\<close>\<close>
  "template_get_content t = (case t of Template content path meta \<Rightarrow> content | Unreadable e path \<Rightarrow> [])"

definition validate_pr_description ::
    "(string \<Rightarrow> string) \<Rightarrow> TemplateFile list \<Rightarrow> string \<Rightarrow> string \<Rightarrow> 'a option \<Rightarrow> 'a validation" where
  \<comment> \<open>the tool \<open>validate_pr_description\<close>\<close>
  "validate_pr_description title files descr template_name ca =
     (case get_template title files template_name of
        None \<Rightarrow>
          NotFound False (''Template '' @ quoted template_name @ '' not found'')
            (list_available_templates title files)
      | Some t \<Rightarrow>
          Validated
            \<lparr>template_used = template_name,
             description_length = int (length descr),
             template_content = template_get_content t,
             change_analysis = ca,
             basic_checks =
               \<lparr>has_description = (length (strip descr) > 0),
                reasonable_length = (10 < length descr \<and> length descr < 5000),
                contains_checklist = (py_in ''- [ ]'' descr \<or> py_in ''- [x]'' descr)\<rparr>,
             validation_note =
               ''This provides basic validation data. Use Claude's analysis ''
               @ ''to determine if the description adequately covers the changes ''
               @ ''and follows the template structure.''\<rparr>)"

section \<open>Notions used to state the properties\<close>

definition line_sizes :: "string list \<Rightarrow> int" where
  \<comment> \<open>what a run of lines adds to \<open>current_size\<close>: each length plus one for the newline\<close>
  "line_sizes ls = (\<Sum>l\<leftarrow>ls. int (length l) + 1)"

definition change_kinds :: "string list" where
  \<comment> \<open>the seven change kinds of the data model\<close>
  "change_kinds =
     [''added'', ''modified'', ''deleted'', ''renamed'', ''copied'', ''type_changed'', ''unknown'']"

definition kind_of_letter :: "char \<Rightarrow> string" where
  \<comment> \<open>the classification as the specification words it: by the leading status letter\<close>
  "kind_of_letter c =
     (if c = CHR ''A'' then ''added'' else if c = CHR ''M'' then ''modified''
      else if c = CHR ''D'' then ''deleted'' else if c = CHR ''R'' then ''renamed''
      else if c = CHR ''C'' then ''copied'' else if c = CHR ''T'' then ''type_changed''
      else ''unknown'')"

fun first_failure :: "(string list \<Rightarrow> proc_result) \<Rightarrow> string list list \<Rightarrow> proc_result option" where
  \<comment> \<open>the outcome of the first command of a sequence that does not exit with code 0; the
      commands after it are never run\<close>
  "first_failure run [] = None"
| "first_failure run (c # cs) =
     (case run c of
        Exited rc out err \<Rightarrow> if rc = 0 then first_failure run cs else Some (Exited rc out err)
      | NotStarted msg \<Rightarrow> Some (NotStarted msg))"

definition has_extension :: "string \<Rightarrow> FileChange \<Rightarrow> bool" where
  \<comment> \<open>the file name has a dot, and \<open>ext\<close> is the text after its last dot\<close>
  "has_extension ext change =
     (py_in ''.'' (filename change) \<and> last (split_chr (CHR ''.'') (filename change)) = ext)"

definition endswith :: "string \<Rightarrow> string \<Rightarrow> bool" where
  \<comment> \<open>\<open>s.endswith(suffix)\<close>, arguments in the order (suffix, s)\<close>
  "endswith suf s = startswith (rev suf) (rev s)"

definition entry_name :: "AnalysisEntry \<Rightarrow> string" where
  \<comment> \<open>the lowercased file name of an entry, empty when the key is missing\<close>
  "entry_name change = lower (case entry_filename change of Some f \<Rightarrow> f | None \<Rightarrow> [])"

definition is_doc :: "string \<Rightarrow> bool" where
  "is_doc fname = any_in [''.md'', ''.txt'', ''.rst'', ''readme'', ''docs/''] fname"

definition is_test :: "string \<Rightarrow> bool" where
  "is_test fname = any_in [''test_'', ''_test'', ''spec_'', ''_spec'', ''tests/''] fname"

definition is_config :: "string \<Rightarrow> bool" where
  "is_config fname = any_in [''.json'', ''.yaml'', ''.yml'', ''.toml'', ''.ini'', ''config''] fname"

definition doc_bucket :: "AnalysisEntry list \<Rightarrow> AnalysisEntry list" where
  \<comment> \<open>bucket (a) of the classification pass\<close>
  "doc_bucket changes = filter (\<lambda>c. is_doc (entry_name c)) changes"

definition code_bucket :: "AnalysisEntry list \<Rightarrow> AnalysisEntry list" where
  \<comment> \<open>bucket (d): what no earlier rule took\<close>
  "code_bucket changes =
     filter (\<lambda>c. \<not> is_doc (entry_name c) \<and> \<not> is_test (entry_name c)
                  \<and> \<not> is_config (entry_name c)) changes"

definition ranking_rule :: "nat \<Rightarrow> nat \<Rightarrow> nat \<Rightarrow> string \<Rightarrow> string list \<times> string list" where
  \<comment> \<open>the ranking rule as the specification lists it, first match wins: the number of
      files, the sizes of the documentation and code buckets, and the lowercased rendering
      of the report give the primary and the secondary suggestions\<close>
  "ranking_rule n docs code rendering =
     (if n = 0 then ([''feature''], [])
      else if docs > code then ([''docs''], [''feature''])
      else if py_in ''fix'' rendering \<or> py_in ''bug'' rendering
              \<or> py_in ''error'' rendering \<or> py_in ''issue'' rendering
        then ([''bugfix''], [''feature''])
      else if py_in ''critical'' rendering \<or> py_in ''urgent'' rendering
              \<or> py_in ''hotfix'' rendering \<or> py_in ''production'' rendering
        then ([''hotfix''], [''bugfix''])
      else ([''feature''], [''docs'', ''bugfix'']))"

definition commit_of_fields :: "string list \<Rightarrow> log_entry" where
  \<comment> \<open>the record built from the first four fields of a line\<close>
  "commit_of_fields parts =
     Commit \<lparr>hash = parts ! 0, message = parts ! 1, author = parts ! 2, date = parts ! 3\<rparr>"

definition counted :: "ChangeSummary \<Rightarrow> int" where
  \<comment> \<open>the sum of the four counters of a summary\<close>
  "counted s = added s + modified s + deleted s + renamed s"

definition is_md :: "AnalysisEntry \<Rightarrow> bool" where
  \<comment> \<open>the entry has a file name with the suffix \<open>.md\<close>\<close>
  "is_md c = (case entry_filename c of Some f \<Rightarrow> endswith ''.md'' f | None \<Rightarrow> False)"

definition report_keys :: "ChangeReport \<Rightarrow> string list" where
  \<comment> \<open>the keys of the dict a report stands for, in the order the dict literal gives them:
      a key is present when its optional field holds a value\<close>
  "report_keys r =
     (if error r \<noteq> None then [''error''] else [])
     @ [''branch_comparison'', ''total_files_changed'', ''file_changes'', ''diff_stats'',
        ''diff_content'', ''truncated'']
     @ (if original_diff_size r \<noteq> None then [''original_diff_size''] else [])
     @ (if change_summary r \<noteq> None then [''change_summary''] else [])"

section \<open>Example inputs\<close>

definition git_ok :: git where
  \<comment> \<open>a tool that always exits with code 0 and prints a two-character diff for main\<close>
  "git_ok cwd command = Exited 0 (if command = diff_command ''main'' then ''+x'' else []) []"

definition git_fail :: git where
  \<comment> \<open>a tool that always exits with code 128\<close>
  "git_fail cwd command = Exited 128 [] ''fatal: not a git repository''"

definition git_log :: git where
  \<comment> \<open>a tool that prints four log lines: a commit, a line of two fields, a blank line
      and a commit whose message holds a pipe\<close>
  "git_log cwd command =
     Exited 0 (''a1|fix typo|Ann|2025-06-01'' @ [CHR 0x0A] @ ''broken|line'' @ [CHR 0x0A]
               @ '' '' @ [CHR 0x0A] @ ''b2|add x|y|Bob|2025-06-02|z'' @ [CHR 0x0A]) []"

definition example_changes :: "FileChange list" where
  \<comment> \<open>three parsed changes: one under src, one at the root without a dot, one copied\<close>
  "example_changes =
     [\<lparr>status = ''A'', filename = ''src/a.py'', change_type = ''added''\<rparr>,
      \<lparr>status = ''M'', filename = ''README'', change_type = ''modified''\<rparr>,
      \<lparr>status = ''C75'', filename = ''docs/x.md'', change_type = ''copied''\<rparr>]"

definition docs_analysis :: ChangeAnalysis where
  \<comment> \<open>three changed files: two Markdown files and one Python file\<close>
  "docs_analysis =
     \<lparr>analysis_file_changes =
        Some [\<lparr>entry_filename = Some ''README.md''\<rparr>,
              \<lparr>entry_filename = Some ''src/app.py''\<rparr>,
              \<lparr>entry_filename = Some ''docs/guide.md''\<rparr>]\<rparr>"

definition code_analysis :: ChangeAnalysis where
  \<comment> \<open>one changed Python file\<close>
  "code_analysis = \<lparr>analysis_file_changes = Some [\<lparr>entry_filename = Some ''src/app.py''\<rparr>]\<rparr>"

definition urgent_str :: "ChangeAnalysis \<Rightarrow> string" where
  \<comment> \<open>a rendering that holds the word urgent in capitals and none of the bugfix words\<close>
  "urgent_str ca = ''{'diff_stats': 'URGENT patch'}''"

definition example_files :: "TemplateFile list" where
  \<comment> \<open>a template directory of two files, the second of which cannot be read\<close>
  "example_files =
     [\<lparr>stem = ''feature'', file_path = ''templates/feature.md'',
       read_result = Inr ''## Feature''\<rparr>,
      \<lparr>stem = ''docs'', file_path = ''templates/docs.md'',
       read_result = Inl (OSError ''Permission denied'')\<rparr>]"

definition resolve_ok :: "string \<Rightarrow> py_exception + string" where
  \<comment> \<open>path resolution in a process started in /srv/app\<close>
  "resolve_ok p = Inr (if startswith ''/'' p then p else ''/srv/app/'' @ p)"


definition example_listing :: "string list" where
  \<comment> \<open>the lines of a name-status listing: a modification, a rename with its similarity
      score and two paths, a blank line, and a status letter git does not define\<close>
  "example_listing =
     [''M'' @ [CHR 0x09] @ ''a.py'',
      ''R100'' @ [CHR 0x09] @ ''old.txt'' @ [CHR 0x09] @ ''new.txt'',
      [],
      ''X'' @ [CHR 0x09] @ ''z'']"

section \<open>Strings: splitting, joining, searching\<close>

lemma split_chr_nonempty [simp]: "split_chr c s \<noteq> []"
  by (induction s) (auto simp: Let_def)

lemma join_split_chr: "join [c] (split_chr c s) = s"
proof (induction s)
  case Nil
  show ?case by simp
next
  case (Cons x xs)
  obtain w ws where "split_chr c xs = w # ws"
    by (cases "split_chr c xs") auto
  with Cons show ?case by (cases ws) (auto simp: Let_def)
qed

lemma line_sizes_split: "line_sizes (split_chr c s) = int (length s) + 1"
proof (induction s)
  case Nil
  show ?case by (simp add: line_sizes_def)
next
  case (Cons x xs)
  obtain w ws where "split_chr c xs = w # ws"
    by (cases "split_chr c xs") auto
  with Cons show ?case by (auto simp: Let_def line_sizes_def)
qed

lemma join_snoc: "join sep (xs @ [y]) = (if xs = [] then y else join sep xs @ sep @ y)"
  by (induction sep xs rule: join.induct) auto

lemma length_join: "xs \<noteq> [] \<Longrightarrow> int (length (join [c] xs)) = line_sizes xs - 1"
  by (induction "[c]" xs rule: join.induct) (auto simp: line_sizes_def)

lemma startswith_iff: "startswith p s \<longleftrightarrow> (\<exists>q. s = p @ q)"
  by (induction p s rule: startswith.induct) auto

lemma py_in_iff: "py_in sub s \<longleftrightarrow> (\<exists>p q. s = p @ sub @ q)"
proof (induction s)
  case Nil
  show ?case by auto
next
  case (Cons c cs)
  show ?case
  proof
    assume "py_in sub (c # cs)"
    then consider "startswith sub (c # cs)" | "py_in sub cs" by auto
    then show "\<exists>p q. c # cs = p @ sub @ q"
    proof cases
      case 1
      then obtain q where "c # cs = sub @ q" by (auto simp: startswith_iff)
      then have "c # cs = [] @ sub @ q" by simp
      then show ?thesis by blast
    next
      case 2
      with Cons obtain p q where "cs = p @ sub @ q" by auto
      then have "c # cs = (c # p) @ sub @ q" by simp
      then show ?thesis by blast
    qed
  next
    assume "\<exists>p q. c # cs = p @ sub @ q"
    then obtain p q where pq: "c # cs = p @ sub @ q" by auto
    show "py_in sub (c # cs)"
    proof (cases p)
      case Nil
      with pq have "startswith sub (c # cs)"
        unfolding startswith_iff by auto
      then show ?thesis by simp
    next
      case (Cons a p')
      with pq have "cs = p' @ sub @ q" by simp
      with Cons.IH show ?thesis by auto
    qed
  qed
qed

lemma strip_empty_iff: "strip s = [] \<longleftrightarrow> (\<forall>c \<in> set s. isspace c)"
proof
  assume "strip s = []"
  then have all: "\<forall>x \<in> set (dropWhile isspace s). isspace x"
    by (simp add: strip_def rstrip_def lstrip_def dropWhile_eq_Nil_conv)
  have "dropWhile isspace s = []"
  proof (rule ccontr)
    assume ne: "dropWhile isspace s \<noteq> []"
    then have "\<not> isspace (hd (dropWhile isspace s))" by (rule hd_dropWhile)
    moreover from ne have "hd (dropWhile isspace s) \<in> set (dropWhile isspace s)" by simp
    ultimately show False using all by blast
  qed
  then show "\<forall>c \<in> set s. isspace c"
    by (simp add: dropWhile_eq_Nil_conv)
next
  assume "\<forall>c \<in> set s. isspace c"
  then have d: "dropWhile isspace s = []" by (simp add: dropWhile_eq_Nil_conv)
  show "strip s = []" unfolding strip_def rstrip_def lstrip_def d by simp
qed

section \<open>Diff truncation\<close>

lemma truncate_loop_shape:
  assumes "cur + line_sizes rest > m" and "cur \<le> m \<or> rest \<noteq> []"
  shows "\<exists>k < length rest.
     truncate_loop n m acc cur rest
       = acc @ take k rest @ [truncation_marker (int n - int (length acc) - int k)]
     \<and> (0 < k \<longrightarrow> cur + line_sizes (take k rest) \<le> m)
     \<and> cur + line_sizes (take (Suc k) rest) > m"
  using assms
proof (induction rest arbitrary: acc cur)
  case Nil
  then show ?case by (simp add: line_sizes_def)
next
  case (Cons line rest)
  show ?case
  proof (cases "cur + (int (length line) + 1) > m")
    case True
    then show ?thesis
      by (intro exI[of _ 0]) (simp add: line_sizes_def)
  next
    case False
    with Cons.prems have "cur + (int (length line) + 1) + line_sizes rest > m"
      by (simp add: line_sizes_def)
    moreover from False have "cur + (int (length line) + 1) \<le> m \<or> rest \<noteq> []" by simp
    ultimately obtain k where k: "k < length rest"
      "truncate_loop n m (acc @ [line]) (cur + (int (length line) + 1)) rest
         = (acc @ [line]) @ take k rest
             @ [truncation_marker (int n - int (length (acc @ [line])) - int k)]"
      "0 < k \<longrightarrow> cur + (int (length line) + 1) + line_sizes (take k rest) \<le> m"
      "cur + (int (length line) + 1) + line_sizes (take (Suc k) rest) > m"
      using Cons.IH[of "cur + (int (length line) + 1)" "acc @ [line]"] by blast
    have a: "int n - int (length (acc @ [line])) - int k = int n - int (length acc) - int (Suc k)"
      by simp
    have b: "cur + line_sizes (take (Suc k) (line # rest)) \<le> m"
      using False k(3) by (cases "k = 0") (simp_all add: line_sizes_def)
    show ?thesis
      using False k(1,2,4) b unfolding a
      by (intro exI[of _ "Suc k"]) (simp add: line_sizes_def Let_def)
  qed
qed

lemma line_sizes_nonneg: "0 \<le> line_sizes ls"
  by (induction ls) (simp_all add: line_sizes_def)

lemma length_join_snoc:
  "int (length (join [c] (xs @ [y]))) = line_sizes xs + int (length y)"
  by (cases "xs = []") (simp_all add: join_snoc length_join line_sizes_def)

text \<open>
  What the truncation does hold for a diff longer than the budget: the loop always
  reaches the marker, the text is the first \<open>k\<close> lines followed by the marker line, the
  marker states the number of lines minus \<open>k\<close>, the lines emitted fit the budget, and
  the next line would not have fitted.
\<close>

lemma truncate_diff_over_budget:
  assumes "int (length diff) > m"
  shows "\<exists>k < length (split_chr (CHR 0x0A) diff).
     truncate_diff diff m
       = join [CHR 0x0A] (take k (split_chr (CHR 0x0A) diff)
           @ [truncation_marker (int (length (split_chr (CHR 0x0A) diff)) - int k)])
     \<and> (0 < k \<longrightarrow> line_sizes (take k (split_chr (CHR 0x0A) diff)) \<le> m)
     \<and> line_sizes (take (Suc k) (split_chr (CHR 0x0A) diff)) > m"
proof -
  let ?lines = "split_chr (CHR 0x0A) diff"
  have "0 + line_sizes ?lines > m" using assms by (simp add: line_sizes_split)
  moreover have "0 \<le> m \<or> ?lines \<noteq> []" by simp
  ultimately obtain k where "k < length ?lines"
     "truncate_loop (length ?lines) m [] 0 ?lines
        = [] @ take k ?lines
            @ [truncation_marker (int (length ?lines) - int (length ([]::string list)) - int k)]"
     "0 < k \<longrightarrow> 0 + line_sizes (take k ?lines) \<le> m"
     "0 + line_sizes (take (Suc k) ?lines) > m"
    using truncate_loop_shape[of m 0 ?lines "length ?lines" "[]"] by blast
  then show ?thesis using assms
    by (intro exI[of _ k]) (simp add: truncate_diff_def Let_def)
qed

lemma str_nat_nonempty: "str_nat n \<noteq> []"
  by (subst str_nat.simps) simp

lemma length_truncation_marker: "length (truncation_marker k) \<ge> 40"
proof -
  have "length (str_int k) \<ge> 1"
    using str_nat_nonempty by (auto simp: str_int_def Suc_le_eq)
  then show ?thesis by (simp add: truncation_marker_def)
qed

text \<open>
  The marker is appended on top of what the loop has counted, so the text returned is at
  least forty characters long whatever the budget is.
\<close>

lemma truncate_diff_at_least_marker:
  assumes "int (length diff) > m"
  shows "length (truncate_diff diff m) \<ge> 40"
proof -
  from truncate_diff_over_budget[OF assms] obtain k where
    "truncate_diff diff m
       = join [CHR 0x0A] (take k (split_chr (CHR 0x0A) diff)
           @ [truncation_marker (int (length (split_chr (CHR 0x0A) diff)) - int k)])"
    by blast
  then have "int (length (truncate_diff diff m))
      = line_sizes (take k (split_chr (CHR 0x0A) diff))
        + int (length (truncation_marker (int (length (split_chr (CHR 0x0A) diff)) - int k)))"
    by (simp only: length_join_snoc)
  moreover have "0 \<le> line_sizes (take k (split_chr (CHR 0x0A) diff))"
    by (rule line_sizes_nonneg)
  ultimately show ?thesis
    using length_truncation_marker[of "int (length (split_chr (CHR 0x0A) diff)) - int k"]
    by linarith
qed

text \<open>
  This happens at every positive budget, the default of 23000 characters included: a
  first line that fills the budget exactly is emitted, and the marker of forty characters
  follows it.
\<close>

lemma split_chr_no_separator: "c \<notin> set s \<Longrightarrow> split_chr c s = [s]"
  by (induction s) (auto simp: Let_def)

lemma split_chr_at_separator:
  "c \<notin> set s \<Longrightarrow> split_chr c (s @ c # t) = s # split_chr c t"
  by (induction s) (auto simp: Let_def)

lemma truncate_diff_full_line_overshoot:
  assumes "0 < n"
  shows "int (length (replicate (n - 1) (CHR ''a'') @ [CHR 0x0A] @ ''b'')) > int n
    \<and> truncate_diff (replicate (n - 1) (CHR ''a'') @ [CHR 0x0A] @ ''b'') (int n)
        = replicate (n - 1) (CHR ''a'') @ [CHR 0x0A] @ truncation_marker 1
    \<and> int (length (truncate_diff (replicate (n - 1) (CHR ''a'') @ [CHR 0x0A] @ ''b'') (int n)))
        = int n + 40"
proof -
  let ?l = "replicate (n - 1) (CHR ''a'')"
  have nl: "CHR 0x0A \<notin> set ?l" by auto
  have lines: "split_chr (CHR 0x0A) (?l @ [CHR 0x0A] @ ''b'') = [?l, ''b'']"
    using split_chr_at_separator[OF nl, of "''b''"] by (simp add: Let_def)
  have len: "int (length (?l @ [CHR 0x0A] @ ''b'')) > int n" using assms by simp
  have m: "length (truncation_marker 1) = 40"
    by (simp add: truncation_marker_def str_int_def str_nat.simps digit_chr_def)
  have t: "truncate_diff (?l @ [CHR 0x0A] @ ''b'') (int n) = ?l @ [CHR 0x0A] @ truncation_marker 1"
    using assms len unfolding truncate_diff_def lines Let_def
    by (simp add: of_nat_diff)
  show ?thesis
    unfolding t using len assms m by (simp add: of_nat_diff)
qed

text \<open>
  C1. A diff longer than the budget should come back no longer than the budget, ending
  with the marker line that states how many lines were left out. On the two-line diff
  \<open>ab\<close>, \<open>cd\<close> with a budget of 4 characters the routine emits the first line and the
  marker, 43 characters in all: the marker and its count are as stated, the length is
  not within the budget.
\<close>

theorem truncate_diff_exceeds_budget:
  "int (length (''ab'' @ [CHR 0x0A] @ ''cd'')) > 4
   \<and> truncate_diff (''ab'' @ [CHR 0x0A] @ ''cd'') 4
       = ''ab'' @ [CHR 0x0A, CHR 0x0A] @ ''... [DIFF TRUNCATED - 1 more lines] ...''
   \<and> int (length (truncate_diff (''ab'' @ [CHR 0x0A] @ ''cd'') 4)) = 43"
  by (simp add: truncate_diff_def truncation_marker_def str_int_def str_nat.simps
      digit_chr_def Let_def)

lemma truncate_diff_fits:
  "int (length diff) \<le> max_chars \<Longrightarrow> truncate_diff diff max_chars = diff"
  by (simp add: truncate_diff_def)

text \<open>
  C4. A diff no longer than the budget is returned unchanged, and the report built from
  it (the budget being the token limit less the 2000 reserved characters) has its
  truncated flag false and, when the analysis succeeds, carries the diff unchanged.
\<close>

theorem truncate_diff_within_budget:
  assumes "int (length diff) \<le> max_chars"
  shows "truncate_diff diff max_chars = diff
    \<and> (run_git_command git self (diff_command tb) = Inr diff
       \<longrightarrow> \<not> truncated (get_file_changes git self tb (max_chars + 2000))
         \<and> (error (get_file_changes git self tb (max_chars + 2000)) = None
            \<longrightarrow> diff_content (get_file_changes git self tb (max_chars + 2000)) = diff))"
proof -
  have fits: "truncate_diff diff max_chars = diff"
    using assms by (rule truncate_diff_fits)
  have "\<not> truncated (get_file_changes git self tb (max_chars + 2000))
     \<and> (error (get_file_changes git self tb (max_chars + 2000)) = None
            \<longrightarrow> diff_content (get_file_changes git self tb (max_chars + 2000)) = diff)"
    if run: "run_git_command git self (diff_command tb) = Inr diff"
  proof (cases "file_changes_try git self tb (max_chars + 2000)")
    case (Inl e)
    then show ?thesis by (simp add: get_file_changes_def error_report_def)
  next
    case (Inr report)
    then have "diff_content report = diff \<and> \<not> truncated report"
      using run fits
      by (auto simp: file_changes_try_def Let_def split: sum.splits)
    with Inr show ?thesis by (simp add: get_file_changes_def)
  qed
  with fits show ?thesis by blast
qed

theorem truncate_diff_within_budget_witness:
  "truncate_diff ''+x'' 23000 = ''+x''
   \<and> \<not> truncated (get_file_changes git_ok \<lparr>repo_path = ''/repo''\<rparr> ''main'' 25000)
   \<and> diff_content (get_file_changes git_ok \<lparr>repo_path = ''/repo''\<rparr> ''main'' 25000) = ''+x''"
proof -
  have len: "int (length ''+x'') \<le> 23000" by simp
  have run: "run_git_command git_ok \<lparr>repo_path = ''/repo''\<rparr> (diff_command ''main'') = Inr ''+x''"
    by (simp add: run_git_command_def git_ok_def strip_def rstrip_def lstrip_def isspace_def)
  have ok: "error (get_file_changes git_ok \<lparr>repo_path = ''/repo''\<rparr> ''main'' (23000 + 2000)) = None"
    by (simp add: get_file_changes_def file_changes_try_def run_git_command_def git_ok_def
        diff_command_def stat_command_def name_status_command_def
        strip_def rstrip_def lstrip_def isspace_def summarize_changes_def Let_def)
  show ?thesis
    using truncate_diff_within_budget[OF len, of git_ok "\<lparr>repo_path = ''/repo''\<rparr>" "''main''"] run ok
    by simp
qed

section \<open>Change kinds\<close>

lemma status_map_kind:
  "(case status_map c of Some kind \<Rightarrow> kind | None \<Rightarrow> ''unknown'') = kind_of_letter c"
  by (simp add: status_map_def kind_of_letter_def)

lemma kind_of_letter_enumerated: "kind_of_letter c \<in> set change_kinds"
  by (simp add: kind_of_letter_def change_kinds_def)

lemma hd_split_chr: "hd (split_chr c s) = takeWhile (\<lambda>x. x \<noteq> c) s"
  by (induction s) (auto simp: Let_def)

lemma first_field_nonempty:
  assumes "line \<noteq> []" and "\<not> startswith [c] line"
  shows "split_chr c line ! 0 \<noteq> []"
proof -
  from assms obtain x xs where l: "line = x # xs" "x \<noteq> c"
    by (cases line) auto
  have "split_chr c line ! 0 = hd (split_chr c line)"
    by (simp add: hd_conv_nth)
  then show ?thesis using l by (simp add: hd_split_chr)
qed

lemma strip_nonempty_imp: "strip line \<noteq> [] \<Longrightarrow> line \<noteq> []"
  by (auto simp: strip_def rstrip_def lstrip_def)

lemma parse_changed_files_kinds:
  assumes "\<forall>line \<in> set lines. \<not> startswith [CHR 0x09] line"
    and "\<forall>c \<in> set acc. status c \<noteq> [] \<and> change_type c = kind_of_letter (hd (status c))"
  shows "\<exists>changes. parse_changed_files lines acc = Inr changes
    \<and> (\<forall>c \<in> set changes. status c \<noteq> [] \<and> change_type c = kind_of_letter (hd (status c)))"
  using assms
proof (induction lines arbitrary: acc)
  case Nil
  then show ?case by simp
next
  case (Cons line rest)
  let ?parts = "split_chr (CHR 0x09) line"
  show ?case
  proof (cases "strip line \<noteq> [] \<and> length ?parts \<ge> 2")
    case True
    then have "line \<noteq> []" using strip_nonempty_imp by blast
    moreover from Cons.prems(1) have "\<not> startswith [CHR 0x09] line" by simp
    ultimately have ne: "?parts ! 0 \<noteq> []" by (rule first_field_nonempty)
    then obtain c cs where p0: "?parts ! 0 = c # cs" by (cases "?parts ! 0") auto
    let ?fc = "\<lparr>status = ?parts ! 0, filename = ?parts ! 1,
                change_type = kind_of_letter (hd (?parts ! 0))\<rparr>"
    have g: "get_change_type (?parts ! 0) = Inr (kind_of_letter (hd (?parts ! 0)))"
      by (simp add: p0 status_map_kind)
    have step: "parse_changed_files (line # rest) acc = parse_changed_files rest (acc @ [?fc])"
      using True g by (simp add: Let_def)
    have "\<forall>c \<in> set (acc @ [?fc]). status c \<noteq> [] \<and> change_type c = kind_of_letter (hd (status c))"
      using Cons.prems(2) ne by auto
    moreover from Cons.prems(1) have "\<forall>line \<in> set rest. \<not> startswith [CHR 0x09] line" by simp
    ultimately show ?thesis
      unfolding step by (rule Cons.IH[rotated])
  next
    case False
    then have step: "parse_changed_files (line # rest) acc = parse_changed_files rest acc"
      by (auto simp: Let_def)
    from Cons.prems(1) have "\<forall>line \<in> set rest. \<not> startswith [CHR 0x09] line" by simp
    then show ?thesis
      unfolding step using Cons.prems(2) by (rule Cons.IH)
  qed
qed

text \<open>
  C2. Every raw status token produced by the name-status listing is classified without a
  fault, by its first character alone: A, M, D, R, C, T give added, modified, deleted,
  renamed, copied, type\_changed, any other first character gives unknown, and the
  result is always one of the seven kinds. A token of the listing is the text before the
  first tab of a line; git prints the status first, so no line begins with a tab, and for
  every such listing the parser returns its entries without a fault, each with a
  non-empty status token classified by its first character.
\<close>

theorem get_change_type_first_letter:
  "(token \<noteq> [] \<longrightarrow>
      get_change_type token = Inr (kind_of_letter (hd token))
      \<and> kind_of_letter (hd token) \<in> set change_kinds
      \<and> (hd token \<notin> set ''AMDRCT'' \<longrightarrow> kind_of_letter (hd token) = ''unknown''))
   \<and> kind_of_letter (CHR ''A'') = ''added'' \<and> kind_of_letter (CHR ''M'') = ''modified''
   \<and> kind_of_letter (CHR ''D'') = ''deleted'' \<and> kind_of_letter (CHR ''R'') = ''renamed''
   \<and> kind_of_letter (CHR ''C'') = ''copied'' \<and> kind_of_letter (CHR ''T'') = ''type_changed''
   \<and> ((\<forall>line \<in> set lines. \<not> startswith [CHR 0x09] line) \<longrightarrow>
        (\<exists>changes. parse_changed_files lines [] = Inr changes
           \<and> (\<forall>c \<in> set changes.
                 status c \<noteq> []
                 \<and> get_change_type (status c) = Inr (change_type c)
                 \<and> change_type c = kind_of_letter (hd (status c))
                 \<and> change_type c \<in> set change_kinds)))"
proof -
  have tok: "get_change_type t = Inr (kind_of_letter (hd t))" if "t \<noteq> []" for t
  proof -
    from that obtain c cs where "t = c # cs" by (cases t) auto
    then show ?thesis by (simp add: status_map_kind)
  qed
  have 1: "token \<noteq> [] \<longrightarrow>
      get_change_type token = Inr (kind_of_letter (hd token))
      \<and> kind_of_letter (hd token) \<in> set change_kinds
      \<and> (hd token \<notin> set ''AMDRCT'' \<longrightarrow> kind_of_letter (hd token) = ''unknown'')"
    using tok[of token] kind_of_letter_enumerated[of "hd token"]
    by (simp add: kind_of_letter_def)
  have 2: "\<exists>changes. parse_changed_files lines [] = Inr changes
           \<and> (\<forall>c \<in> set changes.
                 status c \<noteq> []
                 \<and> get_change_type (status c) = Inr (change_type c)
                 \<and> change_type c = kind_of_letter (hd (status c))
                 \<and> change_type c \<in> set change_kinds)"
    if "\<forall>line \<in> set lines. \<not> startswith [CHR 0x09] line"
  proof -
    from parse_changed_files_kinds[OF that, of "[]"] obtain changes where
      c: "parse_changed_files lines [] = Inr changes"
      "\<forall>c \<in> set changes. status c \<noteq> [] \<and> change_type c = kind_of_letter (hd (status c))"
      by auto
    have "\<forall>c \<in> set changes.
                 status c \<noteq> []
                 \<and> get_change_type (status c) = Inr (change_type c)
                 \<and> change_type c = kind_of_letter (hd (status c))
                 \<and> change_type c \<in> set change_kinds"
      using c(2) tok kind_of_letter_enumerated by auto
    with c(1) show ?thesis by blast
  qed
  from 1 2 show ?thesis by (simp add: kind_of_letter_def)
qed

theorem get_change_type_first_letter_witness:
  "get_change_type ''R100'' = Inr ''renamed''
   \<and> (\<exists>changes. parse_changed_files example_listing [] = Inr changes
         \<and> map status changes = [''M'', ''R100'', ''X'']
         \<and> map change_type changes = [''modified'', ''renamed'', ''unknown''])"
proof -
  have a: "''R100'' \<noteq> []" by simp
  have b: "\<forall>line \<in> set example_listing. \<not> startswith [CHR 0x09] line"
    by (simp add: example_listing_def)
  have c: "parse_changed_files example_listing []
     = Inr [\<lparr>status = ''M'', filename = ''a.py'', change_type = ''modified''\<rparr>,
            \<lparr>status = ''R100'', filename = ''old.txt'', change_type = ''renamed''\<rparr>,
            \<lparr>status = ''X'', filename = ''z'', change_type = ''unknown''\<rparr>]"
    by (simp add: example_listing_def strip_def rstrip_def lstrip_def isspace_def Let_def
        status_map_def)
  from get_change_type_first_letter[of "''R100''" example_listing] a b
  show ?thesis unfolding c by (simp add: kind_of_letter_def)
qed

text \<open>
  The empty string is no token of a listing: \<open>status[0]\<close> has no character to read
  there, and the model gives the fault.
\<close>

lemma get_change_type_empty_token: "get_change_type [] = Inl IndexError"
  by simp

section \<open>Failure of the tool\<close>

lemma file_changes_try_git_failure:
  assumes "first_failure (git (repo_path self))
             [name_status_command tb, stat_command tb, diff_command tb] = Some (Exited rc out err)"
  shows "file_changes_try git self tb mt = Inl (Exception (''Git command failed: '' @ err))"
proof -
  let ?e = "Inl (Exception (''Git command failed: '' @ err)) :: py_exception + string"
  let ?r = "\<lambda>c. run_git_command git self c"
  from assms have
    "?r (name_status_command tb) = ?e
     \<or> (\<exists>v. ?r (name_status_command tb) = Inr v) \<and> ?r (stat_command tb) = ?e
     \<or> (\<exists>v. ?r (name_status_command tb) = Inr v) \<and> (\<exists>v. ?r (stat_command tb) = Inr v)
         \<and> ?r (diff_command tb) = ?e"
    by (auto simp: run_git_command_def split: proc_result.splits if_splits)
  then show ?thesis
    by (auto simp: file_changes_try_def Let_def)
qed

lemma success_report_keys:
  assumes "file_changes_try git self tb mt = Inr report"
  shows "get_file_changes git self tb mt = report
    \<and> report_keys report
        = [''branch_comparison'', ''total_files_changed'', ''file_changes'', ''diff_stats'',
           ''diff_content'', ''truncated'', ''original_diff_size'', ''change_summary'']"
  using assms
  by (auto simp: get_file_changes_def file_changes_try_def report_keys_def Let_def
      split: sum.splits)

lemma error_report_keys:
  "report_keys (error_report msg tb)
     = [''error'', ''branch_comparison'', ''total_files_changed'', ''file_changes'',
        ''diff_stats'', ''diff_content'', ''truncated'']"
  by (simp add: report_keys_def error_report_def)

text \<open>
  C3 (as amended). When one of the three git queries exits with a non-zero code (the
  queries before it having succeeded), \<open>get_file_changes\<close> returns, without a fault,
  the error report: a non-empty error message, the branch comparison, no files, empty
  stat and diff texts, truncated false. Its keys are those of the success path without
  original\_diff\_size and change\_summary, and with error. The tool
  \<open>analyze_file_changes\<close> returns that report with its additional keys.
\<close>

theorem get_file_changes_tool_failure:
  assumes "first_failure (git (repo_path self))
             [name_status_command tb, stat_command tb, diff_command tb] = Some (Exited rc out err)"
  shows "get_file_changes git self tb mt = error_report (''Git command failed: '' @ err) tb
    \<and> (\<exists>msg. error (get_file_changes git self tb mt) = Some msg \<and> msg \<noteq> [])
    \<and> branch_comparison (get_file_changes git self tb mt) = tb @ ''...HEAD''
    \<and> total_files_changed (get_file_changes git self tb mt) = 0
    \<and> file_changes (get_file_changes git self tb mt) = []
    \<and> diff_stats (get_file_changes git self tb mt) = []
    \<and> diff_content (get_file_changes git self tb mt) = []
    \<and> \<not> truncated (get_file_changes git self tb mt)
    \<and> original_diff_size (get_file_changes git self tb mt) = None
    \<and> change_summary (get_file_changes git self tb mt) = None
    \<and> report_keys (get_file_changes git self tb mt)
        = [''error'', ''branch_comparison'', ''total_files_changed'', ''file_changes'',
           ''diff_stats'', ''diff_content'', ''truncated'']
    \<and> fst (analyze_file_changes git resolve tb ''.'' mt \<lparr>git_analyzer = self\<rparr>)
        = Analysis (error_report (''Git command failed: '' @ err) tb)
            (get_branch_info git self) (get_commit_messages git self tb 5)
            ''2025-06-14'' ''1.0.0''"
proof -
  have r: "get_file_changes git self tb mt = error_report (''Git command failed: '' @ err) tb"
    using file_changes_try_git_failure[where git=git and self=self, OF assms]
    by (simp add: get_file_changes_def)
  have "fst (analyze_file_changes git resolve tb ''.'' mt \<lparr>git_analyzer = self\<rparr>)
        = Analysis (get_file_changes git self tb mt)
            (get_branch_info git self) (get_commit_messages git self tb 5)
            ''2025-06-14'' ''1.0.0''"
    by (simp add: analyze_file_changes_def Let_def)
  then show ?thesis
    unfolding r error_report_keys by (simp add: error_report_def)
qed

theorem get_file_changes_tool_failure_witness:
  "get_file_changes git_fail \<lparr>repo_path = ''/tmp''\<rparr> ''main'' 25000
     = error_report ''Git command failed: fatal: not a git repository'' ''main''
   \<and> error (get_file_changes git_fail \<lparr>repo_path = ''/tmp''\<rparr> ''main'' 25000)
     = Some ''Git command failed: fatal: not a git repository''
   \<and> total_files_changed (get_file_changes git_fail \<lparr>repo_path = ''/tmp''\<rparr> ''main'' 25000) = 0
   \<and> report_keys (get_file_changes git_fail \<lparr>repo_path = ''/tmp''\<rparr> ''main'' 25000)
        = [''error'', ''branch_comparison'', ''total_files_changed'', ''file_changes'',
           ''diff_stats'', ''diff_content'', ''truncated'']"
proof -
  have f: "first_failure (git_fail (repo_path \<lparr>repo_path = ''/tmp''\<rparr>))
      [name_status_command ''main'', stat_command ''main'', diff_command ''main'']
    = Some (Exited 128 [] ''fatal: not a git repository'')"
    by (simp add: git_fail_def)
  show ?thesis
    using get_file_changes_tool_failure[where git=git_fail and self="\<lparr>repo_path = ''/tmp''\<rparr>"
        and mt=25000 and resolve=resolve_ok, OF f]
    by (simp add: error_report_def report_keys_def)
qed

text \<open>
  C3 as stated asks for a report of the same shape as the success path. The two dicts
  differ in their keys: for a tool that exits with code 128 the report has seven keys,
  error among them, and for a tool that succeeds it has eight, without error and with
  original\_diff\_size and change\_summary.
\<close>

theorem get_file_changes_failure_shape_differs:
  "first_failure (git_fail (repo_path \<lparr>repo_path = ''/tmp''\<rparr>))
      [name_status_command ''main'', stat_command ''main'', diff_command ''main'']
    = Some (Exited 128 [] ''fatal: not a git repository'')
   \<and> report_keys (get_file_changes git_fail \<lparr>repo_path = ''/tmp''\<rparr> ''main'' 25000)
       = [''error'', ''branch_comparison'', ''total_files_changed'', ''file_changes'',
          ''diff_stats'', ''diff_content'', ''truncated'']
   \<and> report_keys (get_file_changes git_ok \<lparr>repo_path = ''/repo''\<rparr> ''main'' 25000)
       = [''branch_comparison'', ''total_files_changed'', ''file_changes'', ''diff_stats'',
          ''diff_content'', ''truncated'', ''original_diff_size'', ''change_summary'']
   \<and> report_keys (get_file_changes git_fail \<lparr>repo_path = ''/tmp''\<rparr> ''main'' 25000)
       \<noteq> report_keys (get_file_changes git_ok \<lparr>repo_path = ''/repo''\<rparr> ''main'' 25000)"
proof -
  have f: "first_failure (git_fail (repo_path \<lparr>repo_path = ''/tmp''\<rparr>))
      [name_status_command ''main'', stat_command ''main'', diff_command ''main'']
    = Some (Exited 128 [] ''fatal: not a git repository'')"
    by (simp add: git_fail_def)
  have a: "get_file_changes git_fail \<lparr>repo_path = ''/tmp''\<rparr> ''main'' 25000
     = error_report ''Git command failed: fatal: not a git repository'' ''main''"
    using file_changes_try_git_failure[where git=git_fail and self="\<lparr>repo_path = ''/tmp''\<rparr>"
        and mt=25000, OF f]
    by (simp add: get_file_changes_def)
  have b: "report_keys (get_file_changes git_ok \<lparr>repo_path = ''/repo''\<rparr> ''main'' 25000)
       = [''branch_comparison'', ''total_files_changed'', ''file_changes'', ''diff_stats'',
          ''diff_content'', ''truncated'', ''original_diff_size'', ''change_summary'']"
    by (simp add: report_keys_def get_file_changes_def file_changes_try_def run_git_command_def
        git_ok_def diff_command_def stat_command_def name_status_command_def
        strip_def rstrip_def lstrip_def isspace_def summarize_changes_def Let_def)
  show ?thesis
    unfolding a b error_report_keys using f by simp
qed

section \<open>The commit log\<close>

lemma parse_commits_eq:
  "parse_commits lines commits =
     commits @ map commit_of_fields
       (filter (\<lambda>parts. length parts \<ge> 4)
          (map (split_chr (CHR ''|'')) (filter (\<lambda>line. strip line \<noteq> []) lines)))"
  by (induction lines arbitrary: commits) (simp_all add: Let_def commit_of_fields_def)

text \<open>
  C9. On success the log output is split into lines, blank lines are skipped, each line is
  split at the pipes, lines of fewer than four fields are dropped, and the first four
  fields of every other line are its hash, message, author and date. When git exits with
  a non-zero code or cannot be started, the result is the single error marker.
\<close>

theorem get_commit_messages_parse:
  "(git (repo_path self) (log_command tb limit) = Exited 0 out err \<longrightarrow>
      get_commit_messages git self tb limit =
        map commit_of_fields
          (filter (\<lambda>parts. length parts \<ge> 4)
             (map (split_chr (CHR ''|''))
                (filter (\<lambda>line. strip line \<noteq> []) (split_chr (CHR 0x0A) (strip out))))))
   \<and> (git (repo_path self) (log_command tb limit) = Exited rc out err \<and> rc \<noteq> 0 \<longrightarrow>
      get_commit_messages git self tb limit = [LogError (''Git command failed: '' @ err)])
   \<and> (git (repo_path self) (log_command tb limit) = NotStarted msg \<longrightarrow>
      get_commit_messages git self tb limit = [LogError msg])"
  by (simp add: get_commit_messages_def run_git_command_def parse_commits_eq)

theorem get_commit_messages_parse_witness:
  "get_commit_messages git_log \<lparr>repo_path = ''/repo''\<rparr> ''main'' 5
     = [Commit \<lparr>hash = ''a1'', message = ''fix typo'', author = ''Ann'', date = ''2025-06-01''\<rparr>,
        Commit \<lparr>hash = ''b2'', message = ''add x'', author = ''y'', date = ''Bob''\<rparr>]
   \<and> get_commit_messages git_fail \<lparr>repo_path = ''/tmp''\<rparr> ''main'' 5
     = [LogError ''Git command failed: fatal: not a git repository'']"
proof -
  have a: "git_log (repo_path \<lparr>repo_path = ''/repo''\<rparr>) (log_command ''main'' 5)
     = Exited 0 (''a1|fix typo|Ann|2025-06-01'' @ [CHR 0x0A] @ ''broken|line'' @ [CHR 0x0A]
               @ '' '' @ [CHR 0x0A] @ ''b2|add x|y|Bob|2025-06-02|z'' @ [CHR 0x0A]) []"
    by (simp add: git_log_def)
  have b: "git_fail (repo_path \<lparr>repo_path = ''/tmp''\<rparr>) (log_command ''main'' 5)
     = Exited 128 [] ''fatal: not a git repository'' \<and> (128::int) \<noteq> 0"
    by (simp add: git_fail_def)
  have c: "strip (''a1|fix typo|Ann|2025-06-01'' @ [CHR 0x0A] @ ''broken|line'' @ [CHR 0x0A]
               @ '' '' @ [CHR 0x0A] @ ''b2|add x|y|Bob|2025-06-02|z'' @ [CHR 0x0A])
     = ''a1|fix typo|Ann|2025-06-01'' @ [CHR 0x0A] @ ''broken|line'' @ [CHR 0x0A]
               @ '' '' @ [CHR 0x0A] @ ''b2|add x|y|Bob|2025-06-02|z''"
    by (simp add: strip_def rstrip_def lstrip_def isspace_def)
  show ?thesis
    using get_commit_messages_parse[of git_log "\<lparr>repo_path = ''/repo''\<rparr>" "''main''" 5, THEN conjunct1, rule_format, OF a]
      get_commit_messages_parse[of git_fail "\<lparr>repo_path = ''/tmp''\<rparr>" "''main''" 5 _ _ 128, THEN conjunct2, THEN conjunct1, rule_format, OF b]
    unfolding c
    by (simp add: commit_of_fields_def strip_def rstrip_def lstrip_def isspace_def Let_def)
qed

section \<open>The change summary\<close>

lemma count_change_type_step:
  assumes "ct \<noteq> ''file_types''" and "ct \<noteq> ''directories''"
  shows "\<exists>s'. count_change_type ct s = Inr s'
    \<and> file_types s' = file_types s \<and> directories s' = directories s
    \<and> counted s' \<le> counted s + 1"
  using assms by (simp add: count_change_type_def counted_def)

lemma track_file_counters:
  "counted (track_file f s) = counted s"
  by (simp add: track_file_def counted_def Let_def)

lemma track_file_types:
  "dict_get (file_types (track_file f s)) ext 0
     = dict_get (file_types s) ext 0
       + (if py_in ''.'' f \<and> last (split_chr (CHR ''.'') f) = ext then 1 else 0)"
  by (simp add: track_file_def Let_def dict_get_def update_conv')

lemma track_file_keys:
  "fst ` set (file_types (track_file f s))
     = fst ` set (file_types s)
       \<union> (if py_in ''.'' f then {last (split_chr (CHR ''.'') f)} else {})"
  by (simp add: track_file_def Let_def dom_update)

lemma track_file_directories:
  "directories (track_file f s)
     = directories s \<union> (if dirname f \<noteq> [] then {dirname f} else {})"
  by (simp add: track_file_def Let_def)

lemma summarize_loop_inv:
  assumes "\<forall>c \<in> set fcs. change_type c \<noteq> ''file_types'' \<and> change_type c \<noteq> ''directories''"
  shows "\<exists>s. summarize_loop fcs s0 = Inr s
    \<and> counted s \<le> counted s0 + int (length fcs)
    \<and> (\<forall>ext. dict_get (file_types s) ext 0
          = dict_get (file_types s0) ext 0 + int (length (filter (has_extension ext) fcs)))
    \<and> fst ` set (file_types s)
        = fst ` set (file_types s0) \<union> {ext. \<exists>c \<in> set fcs. has_extension ext c}
    \<and> directories s
        = directories s0 \<union> {d. d \<noteq> [] \<and> (\<exists>c \<in> set fcs. d = dirname (filename c))}"
  using assms
proof (induction fcs arbitrary: s0)
  case Nil
  then show ?case by simp
next
  case (Cons c fcs)
  from Cons.prems obtain s1 where s1: "count_change_type (change_type c) s0 = Inr s1"
    "file_types s1 = file_types s0" "directories s1 = directories s0"
    "counted s1 \<le> counted s0 + 1"
    using count_change_type_step[of "change_type c" s0] by auto
  let ?s2 = "track_file (filename c) s1"
  from Cons.prems have "\<forall>c \<in> set fcs. change_type c \<noteq> ''file_types'' \<and> change_type c \<noteq> ''directories''"
    by simp
  from Cons.IH[OF this, of ?s2] obtain s where s:
    "summarize_loop fcs ?s2 = Inr s"
    "counted s \<le> counted ?s2 + int (length fcs)"
    "\<forall>ext. dict_get (file_types s) ext 0
          = dict_get (file_types ?s2) ext 0 + int (length (filter (has_extension ext) fcs))"
    "fst ` set (file_types s)
        = fst ` set (file_types ?s2) \<union> {ext. \<exists>c \<in> set fcs. has_extension ext c}"
    "directories s
        = directories ?s2 \<union> {d. d \<noteq> [] \<and> (\<exists>c \<in> set fcs. d = dirname (filename c))}"
    by blast
  have 1: "summarize_loop (c # fcs) s0 = Inr s" using s1(1) s(1) by simp
  have 2: "counted s \<le> counted s0 + int (length (c # fcs))"
    using s(2) s1(4) by (simp add: track_file_counters)
  have 3: "\<forall>ext. dict_get (file_types s) ext 0
          = dict_get (file_types s0) ext 0 + int (length (filter (has_extension ext) (c # fcs)))"
    using s(3) s1(2) by (simp add: track_file_types has_extension_def)
  have 4: "fst ` set (file_types s)
        = fst ` set (file_types s0) \<union> {ext. \<exists>c \<in> set (c # fcs). has_extension ext c}"
    unfolding s(4) track_file_keys s1(2) by (auto simp: has_extension_def)
  have 5: "directories s
        = directories s0 \<union> {d. d \<noteq> [] \<and> (\<exists>c \<in> set (c # fcs). d = dirname (filename c))}"
    unfolding s(5) track_file_directories s1(3) by auto
  from 1 2 3 4 5 show ?case by blast
qed

text \<open>
  C5. For every sequence of file changes whose kinds are among the seven of the data model,
  the summary is computed without a fault; its four counters sum to at most the number of
  changes; the file-type dict counts, for each extension, exactly the file names that
  have a dot and end in that extension, so a name without a dot contributes no entry;
  and the directories are exactly the non-empty parent directories of the file names, so
  a name at the root contributes none.
\<close>

theorem summarize_changes_bounds:
  assumes "\<forall>c \<in> set fcs. change_type c \<in> set change_kinds"
  shows "\<exists>s. summarize_changes fcs = Inr s
    \<and> added s + modified s + deleted s + renamed s \<le> int (length fcs)
    \<and> (\<forall>ext. dict_get (file_types s) ext 0 = int (length (filter (has_extension ext) fcs)))
    \<and> fst ` set (file_types s) = {ext. \<exists>c \<in> set fcs. has_extension ext c}
    \<and> directories s = {d. d \<noteq> [] \<and> (\<exists>c \<in> set fcs. d = dirname (filename c))}"
proof -
  have "\<forall>c \<in> set fcs. change_type c \<noteq> ''file_types'' \<and> change_type c \<noteq> ''directories''"
    using assms by (auto simp: change_kinds_def)
  from summarize_loop_inv[OF this,
      of "\<lparr>added = 0, modified = 0, deleted = 0, renamed = 0, file_types = [], directories = {}\<rparr>"]
  show ?thesis
    by (simp add: summarize_changes_def counted_def dict_get_def)
qed

theorem summarize_changes_bounds_witness:
  "\<exists>s. summarize_changes example_changes = Inr s
     \<and> added s + modified s + deleted s + renamed s \<le> 3
     \<and> fst ` set (file_types s) = {''py'', ''md''}
     \<and> directories s = {''src'', ''docs''}"
proof -
  have k: "\<forall>c \<in> set example_changes. change_type c \<in> set change_kinds"
    by (simp add: example_changes_def change_kinds_def)
  have e: "{ext. \<exists>c \<in> set example_changes. has_extension ext c} = {''py'', ''md''}"
    by (auto simp: example_changes_def has_extension_def Let_def)
  have d: "{d. d \<noteq> [] \<and> (\<exists>c \<in> set example_changes. d = dirname (filename c))} = {''src'', ''docs''}"
    by (auto simp: example_changes_def dirname_def rstrip_chr_def Let_def)
  from summarize_changes_bounds[OF k] show ?thesis
    unfolding e d by (auto simp: example_changes_def)
qed

section \<open>Template suggestions\<close>

lemma count_files_buckets:
  "fst (count_files changes (d, c, g, t)) = d + int (length (doc_bucket changes))
   \<and> fst (snd (count_files changes (d, c, g, t))) = c + int (length (code_bucket changes))"
proof (induction changes arbitrary: d c g t)
  case Nil
  show ?case by (simp add: doc_bucket_def code_bucket_def)
next
  case (Cons x xs)
  show ?case
    using Cons.IH[of "d + 1" c g t] Cons.IH[of d c g "t + 1"]
      Cons.IH[of d c "g + 1" t] Cons.IH[of d "c + 1" g t]
    by (simp add: doc_bucket_def code_bucket_def entry_name_def is_doc_def is_test_def
        is_config_def Let_def del: any_in_def)
qed

lemma endswith_iff: "endswith suf s \<longleftrightarrow> (\<exists>p. s = p @ suf)"
proof -
  have "endswith suf s \<longleftrightarrow> (\<exists>q. rev s = rev suf @ q)"
    by (simp add: endswith_def startswith_iff)
  also have "\<dots> \<longleftrightarrow> (\<exists>p. s = p @ suf)"
  proof
    assume "\<exists>q. rev s = rev suf @ q"
    then obtain q where "rev s = rev suf @ q" by blast
    then have "rev (rev s) = rev (rev suf @ q)" by simp
    then have "s = rev q @ suf" by simp
    then show "\<exists>p. s = p @ suf" by blast
  next
    assume "\<exists>p. s = p @ suf"
    then obtain p where "s = p @ suf" by blast
    then have "rev s = rev suf @ rev p" by simp
    then show "\<exists>q. rev s = rev suf @ q" by blast
  qed
  finally show ?thesis .
qed

lemma lower_md: "lower ''.md'' = ''.md''"
  by (simp add: lower_def lower_chr_def)

lemma md_is_doc:
  assumes "entry_filename c = Some f" and "endswith ''.md'' f"
  shows "is_doc (entry_name c)"
proof -
  from assms(2) obtain p where "f = p @ ''.md''" by (auto simp: endswith_iff)
  then have "lower f = lower p @ ''.md'' @ []"
    using lower_md by (simp add: lower_def)
  then have "py_in ''.md'' (lower f)" unfolding py_in_iff by blast
  then show ?thesis using assms(1) by (simp add: is_doc_def any_in_def entry_name_def)
qed

lemma length_filter_mono:
  "(\<And>x. x \<in> set xs \<Longrightarrow> P x \<Longrightarrow> Q x) \<Longrightarrow> length (filter P xs) \<le> length (filter Q xs)"
  by (induction xs) auto

lemma md_le_doc: "length (filter is_md changes) \<le> length (doc_bucket changes)"
  unfolding doc_bucket_def
  by (rule length_filter_mono) (auto simp: is_md_def md_is_doc split: option.splits)

lemma doc_code_le: "length (doc_bucket changes) + length (code_bucket changes) \<le> length changes"
  by (induction changes) (auto simp: doc_bucket_def code_bucket_def)

text \<open>
  C6. For every change analysis and every rendering of it, the primary and secondary
  suggestions are those of the ranking rule, first match winning: no files gives
  feature; else more documentation files than code files gives docs, then feature; else
  a rendering that holds fix, bug, error or issue gives bugfix, then feature; else one
  that holds critical, urgent, hotfix or production gives hotfix, then bugfix; else
  feature, then docs and bugfix. In particular three files of which two end in
  \<open>.md\<close> give docs, then feature, whatever the third file and the rendering are.
\<close>

theorem get_template_suggestions_ranking:
  "(let changes = (case analysis_file_changes ca of Some l \<Rightarrow> l | None \<Rightarrow> []);
        r = get_template_suggestions py_str ca
    in (primary_suggestions r, secondary_suggestions r)
         = ranking_rule (length changes) (length (doc_bucket changes))
             (length (code_bucket changes)) (lower (py_str ca))
       \<and> (length changes = 3 \<and> length (filter is_md changes) = 2
            \<longrightarrow> primary_suggestions r = [''docs''] \<and> secondary_suggestions r = [''feature'']))"
proof -
  define changes where "changes = (case analysis_file_changes ca of Some l \<Rightarrow> l | None \<Rightarrow> [])"
  define r where "r = get_template_suggestions py_str ca"
  obtain d c g t where cf: "count_files changes (0, 0, 0, 0) = (d, c, g, t)"
    by (cases "count_files changes (0, 0, 0, 0)") auto
  from count_files_buckets[of changes 0 0 0 0] cf
  have d: "d = int (length (doc_bucket changes))" and c: "c = int (length (code_bucket changes))"
    by simp_all
  have rank: "(primary_suggestions r, secondary_suggestions r)
         = ranking_rule (length changes) (length (doc_bucket changes))
             (length (code_bucket changes)) (lower (py_str ca))"
    unfolding r_def get_template_suggestions_def changes_def[symmetric] Let_def cf
    by (simp add: ranking_rule_def any_in_def d c)
  have "primary_suggestions r = [''docs''] \<and> secondary_suggestions r = [''feature'']"
    if "length changes = 3" "length (filter is_md changes) = 2"
  proof -
    from that md_le_doc[of changes] doc_code_le[of changes]
    have "length (doc_bucket changes) > length (code_bucket changes)" by linarith
    with that(1) rank show ?thesis
      by (auto simp: ranking_rule_def)
  qed
  with rank show ?thesis
    unfolding changes_def r_def Let_def by blast
qed

theorem get_template_suggestions_ranking_witness:
  "primary_suggestions (get_template_suggestions urgent_str docs_analysis) = [''docs'']
   \<and> secondary_suggestions (get_template_suggestions urgent_str docs_analysis) = [''feature'']
   \<and> primary_suggestions (get_template_suggestions urgent_str code_analysis) = [''hotfix'']
   \<and> secondary_suggestions (get_template_suggestions urgent_str code_analysis) = [''bugfix'']"
proof -
  have a: "length (case analysis_file_changes docs_analysis of Some l \<Rightarrow> l | None \<Rightarrow> []) = 3
    \<and> length (filter is_md
          (case analysis_file_changes docs_analysis of Some l \<Rightarrow> l | None \<Rightarrow> [])) = 2"
    by (simp add: docs_analysis_def is_md_def endswith_def)
  have b: "ranking_rule
      (length (case analysis_file_changes code_analysis of Some l \<Rightarrow> l | None \<Rightarrow> []))
      (length (doc_bucket (case analysis_file_changes code_analysis of Some l \<Rightarrow> l | None \<Rightarrow> [])))
      (length (code_bucket (case analysis_file_changes code_analysis of Some l \<Rightarrow> l | None \<Rightarrow> [])))
      (lower (urgent_str code_analysis)) = ([''hotfix''], [''bugfix''])"
    by code_simp
  show ?thesis
    using get_template_suggestions_ranking[of docs_analysis urgent_str]
      get_template_suggestions_ranking[of code_analysis urgent_str] a b
    by (simp add: Let_def)
qed

section \<open>Templates and validation\<close>

lemma load_templates_keys:
  "fst ` set (load_templates title files templates)
     = fst ` set templates \<union> stem ` set files"
  by (induction files arbitrary: templates) (auto simp: dom_update)

lemma load_templates_distinct:
  "distinct (map fst templates) \<Longrightarrow> distinct (map fst (load_templates title files templates))"
  by (induction files arbitrary: templates) (simp_all add: distinct_update)

lemma get_template_None_iff:
  "get_template title files template_name = None \<longleftrightarrow> template_name \<notin> stem ` set files"
  by (simp add: get_template_def get_all_templates_def map_of_eq_None_iff load_templates_keys)

lemma available_templates:
  "set (list_available_templates title files) = stem ` set files
   \<and> distinct (list_available_templates title files)"
  using load_templates_keys[of title files "[]"] load_templates_distinct[of "[]" title files]
  by (simp add: list_available_templates_def get_all_templates_def)

text \<open>
  C7. For every description and every template name found in the template directory,
  the validation reports has\_description exactly when the stripped description is not
  empty (the description has a character that is no whitespace), reasonable\_length
  exactly when the length lies between 11 and 4999, and contains\_checklist exactly when
  one of the two checklist markers occurs in the description; for the empty description
  the first two are false.
\<close>

theorem validate_pr_description_checks:
  assumes "template_name \<in> stem ` set files"
  shows "\<exists>r. validate_pr_description title files descr template_name ca = Validated r
    \<and> template_used r = template_name
    \<and> has_description (basic_checks r) = (\<exists>c \<in> set descr. \<not> isspace c)
    \<and> has_description (basic_checks r) = (strip descr \<noteq> [])
    \<and> reasonable_length (basic_checks r) = (11 \<le> length descr \<and> length descr \<le> 4999)
    \<and> contains_checklist (basic_checks r)
        = (\<exists>p q. descr = p @ ''- [ ]'' @ q \<or> descr = p @ ''- [x]'' @ q)
    \<and> (descr = [] \<longrightarrow> \<not> has_description (basic_checks r)
                       \<and> \<not> reasonable_length (basic_checks r))"
proof -
  from assms obtain t where t: "get_template title files template_name = Some t"
    using get_template_None_iff[of title files template_name] by auto
  have s: "(strip descr \<noteq> []) = (\<exists>c \<in> set descr. \<not> isspace c)"
    by (simp add: strip_empty_iff)
  have l: "(10 < length descr \<and> length descr < 5000) = (11 \<le> length descr \<and> length descr \<le> 4999)"
    by auto
  have k: "(py_in ''- [ ]'' descr \<or> py_in ''- [x]'' descr)
      = (\<exists>p q. descr = p @ ''- [ ]'' @ q \<or> descr = p @ ''- [x]'' @ q)"
    unfolding py_in_iff by blast
  show ?thesis
    unfolding validate_pr_description_def t
    using s l k by (auto simp: strip_def rstrip_def lstrip_def)
qed

theorem validate_pr_description_checks_witness:
  "\<exists>r. validate_pr_description (\<lambda>s. s) example_files [] ''feature'' (None :: unit option)
         = Validated r
     \<and> \<not> has_description (basic_checks r) \<and> \<not> reasonable_length (basic_checks r)
     \<and> \<not> contains_checklist (basic_checks r)"
proof -
  have a: "''feature'' \<in> stem ` set example_files"
    by (simp add: example_files_def)
  from validate_pr_description_checks[OF a, of "\<lambda>s. s" "[]" "None :: unit option"]
  show ?thesis by auto
qed

text \<open>
  C8. For every template name that is the stem of no file of the template directory, the
  lookup returns nothing, and the validation returns the failure payload: valid false, an
  error message that holds the name, and the names of all templates of the directory,
  each once.
\<close>

theorem validate_pr_description_unknown_template:
  assumes "template_name \<notin> stem ` set files"
  shows "get_template title files template_name = None
    \<and> validate_pr_description title files descr template_name ca
        = NotFound False (''Template '' @ quoted template_name @ '' not found'')
            (list_available_templates title files)
    \<and> set (list_available_templates title files) = stem ` set files
    \<and> distinct (list_available_templates title files)
    \<and> py_in template_name (''Template '' @ quoted template_name @ '' not found'')"
proof -
  have n: "get_template title files template_name = None"
    using assms by (simp add: get_template_None_iff)
  have "''Template '' @ quoted template_name @ '' not found''
      = (''Template '' @ [CHR 0x27]) @ template_name @ ([CHR 0x27] @ '' not found'')"
    by (simp add: quoted_def)
  then have "py_in template_name (''Template '' @ quoted template_name @ '' not found'')"
    unfolding py_in_iff by blast
  with n available_templates[of title files] show ?thesis
    by (simp add: validate_pr_description_def)
qed

theorem validate_pr_description_unknown_template_witness:
  "get_template (\<lambda>s. s) example_files ''nonexistent'' = None
   \<and> validate_pr_description (\<lambda>s. s) example_files ''Some text'' ''nonexistent'' (None :: unit option)
       = NotFound False (''Template '' @ [CHR 0x27] @ ''nonexistent'' @ [CHR 0x27] @ '' not found'')
           [''feature'', ''docs'']"
proof -
  have a: "''nonexistent'' \<notin> stem ` set example_files"
    by (simp add: example_files_def)
  have b: "list_available_templates (\<lambda>s. s) example_files = [''feature'', ''docs'']"
    by (simp add: list_available_templates_def get_all_templates_def example_files_def)
  from validate_pr_description_unknown_template[OF a, of "\<lambda>s. s" "''Some text''" "None :: unit option"]
  show ?thesis by (simp add: b quoted_def)
qed

section \<open>The repository configuration\<close>







end
